theory Spec2Isabelle
  imports Main
begin

section \<open>Values of the configuration document\<close>

text \<open>
  The configuration manager works on whatever \<^verbatim>\<open>json.loads\<close> returns: nested Python
  dicts, lists, strings, integers, booleans and \<^verbatim>\<open>None\<close>. A dict is an association
  list in insertion order; a lookup takes the first binding of a key, and the dicts of
  a parsed document have no key twice. Numbers with a fraction or an exponent (Python
  floats) are not part of the model. A character is a code point below 256.
\<close>

datatype json =
    JNull
  | JBool bool
  | JInt int
  | JStr string
  | JArr "json list"
  | JObj "(string \<times> json) list"

text \<open>
  Every exception the modelled code can raise is a subclass of Python's
  \<^verbatim>\<open>Exception\<close>. \<^verbatim>\<open>ValueError\<close> carries the message when the manager's own code
  raises it, and the empty string when a library does. \<open>ExternalError\<close> stands for
  a failure of a collaborator outside the repository (a subprocess that cannot be
  spawned, the address discovery).
\<close>

datatype py_error =
    FileNotFoundError
  | JSONDecodeError
  | KeyError
  | IndexError
  | TypeError
  | AttributeError
  | ValueError string
  | ValidationError
  | SameFileError
  | ExternalError

section \<open>Python primitives used by the manager\<close>

text \<open>\<^verbatim>\<open>v[key]\<close> with a string key.\<close>

fun py_getitem :: "json \<Rightarrow> string \<Rightarrow> py_error + json" where
  "py_getitem (JObj kvs) k = (case map_of kvs k of None \<Rightarrow> Inl KeyError | Some v \<Rightarrow> Inr v)"
| "py_getitem _ k = Inl TypeError"

text \<open>
  \<^verbatim>\<open>v[0]\<close>: the first element of a list, the first character of a string; a dict has
  only string keys, so \<^verbatim>\<open>0\<close> is a missing key.
\<close>

fun py_index0 :: "json \<Rightarrow> py_error + json" where
  "py_index0 (JArr xs) = (case xs of [] \<Rightarrow> Inl IndexError | x # _ \<Rightarrow> Inr x)"
| "py_index0 (JStr s) = (case s of [] \<Rightarrow> Inl IndexError | c # _ \<Rightarrow> Inr (JStr [c]))"
| "py_index0 (JObj kvs) = Inl KeyError"
| "py_index0 _ = Inl TypeError"

text \<open>\<^verbatim>\<open>v.get(key, default)\<close>: only a dict has the method.\<close>

fun py_get :: "json \<Rightarrow> string \<Rightarrow> json \<Rightarrow> py_error + json" where
  "py_get (JObj kvs) k d = (case map_of kvs k of None \<Rightarrow> Inr d | Some v \<Rightarrow> Inr v)"
| "py_get _ k d = Inl AttributeError"

text \<open>
  \<^verbatim>\<open>str.lower()\<close> on code points below 256: the letters A-Z and the Latin-1 capitals
  (192-222 but the multiplication sign 215) move up by 32.
\<close>

definition lower_char :: "char \<Rightarrow> char" where
  "lower_char c =
     (let n = (of_char c :: nat)
      in if (65 \<le> n \<and> n \<le> 90) \<or> (192 \<le> n \<and> n \<le> 222 \<and> n \<noteq> 215)
         then char_of (n + 32) else c)"

definition py_lower :: "string \<Rightarrow> string" where
  "py_lower s = map lower_char s"

text \<open>\<^verbatim>\<open>v.lower()\<close>: only a string has the method.\<close>

fun py_lower_method :: "json \<Rightarrow> py_error + string" where
  "py_lower_method (JStr s) = Inr (py_lower s)"
| "py_lower_method _ = Inl AttributeError"

text \<open>Sequencing of computations that may raise.\<close>

definition and_then :: "py_error + 'a \<Rightarrow> ('a \<Rightarrow> py_error + 'b) \<Rightarrow> py_error + 'b" where
  "and_then r f = (case r of Inl e \<Rightarrow> Inl e | Inr x \<Rightarrow> f x)"

section \<open>Enumerations of models.py\<close>

datatype ProtocolType = VLESS_WS | VLESS_XHTTP | VLESS_REALITY | VMESS_WS | TROJAN_XTLS

datatype TransportType = TCP | WS | XHTTP | GRPC | QUIC

datatype SecurityType = NONE | TLS | REALITY | XTLS

section \<open>Protocol classification\<close>

text \<open>
  \<^verbatim>\<open>ConfigManager._detect_protocol\<close>. The protocol field is lower-cased before it is
  compared; a missing field is the empty string, missing stream settings are the empty
  dict, a missing security is \<^verbatim>\<open>none\<close> and a missing network \<^verbatim>\<open>tcp\<close>.
\<close>

definition detect_protocol :: "json \<Rightarrow> py_error + ProtocolType" where
  "detect_protocol inbound =
     and_then (py_get inbound ''protocol'' (JStr '''')) (\<lambda>p.
     and_then (py_lower_method p) (\<lambda>protocol.
     and_then (py_get inbound ''streamSettings'' (JObj [])) (\<lambda>stream_settings.
     and_then (py_get stream_settings ''security'' (JStr ''none'')) (\<lambda>security.
     and_then (py_get stream_settings ''network'' (JStr ''tcp'')) (\<lambda>network.
       if protocol = ''vless'' then
         (if security = JStr ''reality'' then Inr VLESS_REALITY
          else if network = JStr ''xhttp'' then Inr VLESS_XHTTP
          else Inr VLESS_WS)
       else if protocol = ''vmess'' then Inr VMESS_WS
       else if protocol = ''trojan'' then Inr TROJAN_XTLS
       else Inr VLESS_REALITY)))))"

section \<open>Collaborators outside the repository\<close>

text \<open>
  What the manager gets from outside the repository at the time of one call: the Python
  standard library's JSON codec, the proxy binary, the host's tools, the clock, and the
  helpers of \<^verbatim>\<open>utils.py\<close> (address discovery, identifier generation, service
  restart), whose code is not among the sources. A subprocess that cannot be started is
  an error value; otherwise the field holds what it returns.
  \<^item> \<open>json_loads\<close>: decoding and parsing of a file's text;
  \<^item> \<open>json_dumps\<close>, \<open>json_dumps_indent2\<close>: \<^verbatim>\<open>json.dumps(v)\<close> and
    \<^verbatim>\<open>json.dumps(v, indent=2)\<close>;
  \<^item> \<open>py_repr\<close>: \<^verbatim>\<open>str(v)\<close> of a list or dict;
  \<^item> \<open>lax_int\<close>: the integer the validation layer converts a value that is not an
    integer to, if any;
  \<^item> \<open>xray_test\<close>: return code and standard error of the binary's configuration test,
    run on a file with the given content;
  \<^item> \<open>xray_version_query\<close>: decoded standard output of the binary's version query;
  \<^item> \<open>now_strftime\<close>: the local time formatted as \<^verbatim>\<open>%Y%m%d_%H%M%S\<close>.
\<close>

record world =
  json_loads :: "string \<Rightarrow> py_error + json"
  json_dumps :: "json \<Rightarrow> string"
  json_dumps_indent2 :: "json \<Rightarrow> string"
  py_repr :: "json \<Rightarrow> string"
  lax_int :: "json \<Rightarrow> int option"
  xray_test :: "string \<Rightarrow> py_error + int \<times> string"
  xray_version_query :: "py_error + string"
  systemctl_show :: "py_error + string"
  sysctl_congestion :: "py_error + string"
  platform_system :: string
  platform_release :: string
  platform_version :: string
  sys_version :: string
  get_server_ip :: "py_error + string"
  generate_uuid :: string
  restart_xray_service :: bool
  now_strftime :: string
  datetime_utcnow :: string
  sha256_hexdigest :: "string \<Rightarrow> string"

section \<open>String formatting\<close>

definition digit_char :: "nat \<Rightarrow> char" where
  "digit_char d = char_of (48 + d)"

fun str_nat :: "nat \<Rightarrow> string" where
  "str_nat n = (if n < 10 then [digit_char n] else str_nat (n div 10) @ [digit_char (n mod 10)])"

declare str_nat.simps [simp del]

text \<open>\<^verbatim>\<open>str(n)\<close> of an integer.\<close>

definition str_int :: "int \<Rightarrow> string" where
  "str_int i = (if i < 0 then CHR ''-'' # str_nat (nat (- i)) else str_nat (nat i))"

text \<open>
  What an f-string puts in place of \<^verbatim>\<open>{v}\<close>: a string as it is, the decimal digits
  of an integer, \<^verbatim>\<open>True\<close>, \<^verbatim>\<open>False\<close>, \<^verbatim>\<open>None\<close>.
\<close>

fun py_format :: "world \<Rightarrow> json \<Rightarrow> string" where
  "py_format w (JStr s) = s"
| "py_format w (JInt i) = str_int i"
| "py_format w (JBool b) = (if b then ''True'' else ''False'')"
| "py_format w JNull = ''None''"
| "py_format w v = py_repr w v"

text \<open>Truth value of a Python object in a condition.\<close>

fun py_truthy :: "json \<Rightarrow> bool" where
  "py_truthy JNull = False"
| "py_truthy (JBool b) = b"
| "py_truthy (JInt i) = (i \<noteq> 0)"
| "py_truthy (JStr s) = (s \<noteq> [])"
| "py_truthy (JArr xs) = (xs \<noteq> [])"
| "py_truthy (JObj kvs) = (kvs \<noteq> [])"

section \<open>Connection descriptor\<close>

text \<open>
  \<^verbatim>\<open>ConfigManager._generate_connection_link\<close>. The identifier, the port and the label
  come from the document, so they are document values; the address is the string the
  address discovery returned.
\<close>

definition generate_connection_link ::
  "world \<Rightarrow> json \<Rightarrow> string \<Rightarrow> json \<Rightarrow> ProtocolType \<Rightarrow> json \<Rightarrow> json \<Rightarrow> py_error + string" where
  "generate_connection_link w client_id server_ip port protocol_type inbound email =
     (if protocol_type = VLESS_REALITY then
        and_then (py_getitem inbound ''streamSettings'') (\<lambda>stream_settings.
        and_then (py_getitem stream_settings ''realitySettings'') (\<lambda>reality_settings.
        and_then (and_then (py_getitem reality_settings ''serverNames'') py_index0) (\<lambda>sni.
        and_then (and_then (py_getitem reality_settings ''shortIds'') py_index0) (\<lambda>short_id.
          Inr (''vless://'' @ py_format w client_id @ ''@'' @ server_ip @ '':'' @ py_format w port
               @ ''?type=tcp&security=reality''
               @ ''&sni='' @ py_format w sni
               @ ''&sid='' @ py_format w short_id
               @ ''&flow=xtls-rprx-vision''
               @ ''#'' @ py_format w email)))))
      else if protocol_type = VLESS_WS then
        Inr (''vless://'' @ py_format w client_id @ ''@'' @ server_ip @ '':'' @ py_format w port
             @ ''?type=ws&security=none''
             @ ''#'' @ py_format w email)
      else
        Inr (''vless://'' @ py_format w client_id @ ''@'' @ server_ip @ '':'' @ py_format w port
             @ ''#'' @ py_format w email))"

section \<open>Strings and lists\<close>

text \<open>
  \<^verbatim>\<open>str.isspace()\<close> on code points below 256: tab to carriage return, the four
  separators 28-31, the space, next line (133) and the no-break space (160).
\<close>

definition py_isspace :: "char \<Rightarrow> bool" where
  "py_isspace c =
     (let n = (of_char c :: nat)
      in (9 \<le> n \<and> n \<le> 13) \<or> (28 \<le> n \<and> n \<le> 32) \<or> n = 133 \<or> n = 160)"

text \<open>\<^verbatim>\<open>s.strip()\<close>.\<close>

definition py_strip :: "string \<Rightarrow> string" where
  "py_strip s = rev (dropWhile py_isspace (rev (dropWhile py_isspace s)))"

text \<open>\<^verbatim>\<open>s.split(sep)\<close> for a separator of one character: never an empty list.\<close>

fun py_split_on :: "char \<Rightarrow> string \<Rightarrow> string list" where
  "py_split_on sep [] = [[]]"
| "py_split_on sep (c # cs) =
     (if c = sep then [] # py_split_on sep cs
      else (case py_split_on sep cs of
              [] \<Rightarrow> [[c]]
            | t # ts \<Rightarrow> (c # t) # ts))"

text \<open>\<^verbatim>\<open>s.split()\<close>: the maximal runs of characters that are not whitespace.\<close>

fun py_split :: "string \<Rightarrow> string list" where
  "py_split [] = []"
| "py_split (c # cs) =
     (if py_isspace c then py_split cs
      else (case cs of
              [] \<Rightarrow> [[c]]
            | d # _ \<Rightarrow>
                if py_isspace d then [c] # py_split cs
                else (case py_split cs of
                        [] \<Rightarrow> [[c]]
                      | t # ts \<Rightarrow> (c # t) # ts)))"

text \<open>\<^verbatim>\<open>xs[0]\<close> and \<^verbatim>\<open>xs[-1]\<close> of a list.\<close>

definition list_index0 :: "'a list \<Rightarrow> py_error + 'a" where
  "list_index0 xs = (case xs of [] \<Rightarrow> Inl IndexError | x # _ \<Rightarrow> Inr x)"

definition list_last :: "'a list \<Rightarrow> py_error + 'a" where
  "list_last xs = (if xs = [] then Inl IndexError else Inr (last xs))"

text \<open>\<^verbatim>\<open>sub in s\<close>.\<close>

fun py_in :: "string \<Rightarrow> string \<Rightarrow> bool" where
  "py_in sub [] = (sub = [])"
| "py_in sub (c # cs) = (take (length sub) (c # cs) = sub \<or> py_in sub cs)"

text \<open>\<^verbatim>\<open>len(v)\<close> and the elements a loop over \<^verbatim>\<open>v\<close> visits.\<close>

fun py_len :: "json \<Rightarrow> py_error + nat" where
  "py_len (JArr xs) = Inr (length xs)"
| "py_len (JStr s) = Inr (length s)"
| "py_len (JObj kvs) = Inr (length kvs)"
| "py_len _ = Inl TypeError"

fun py_iter :: "json \<Rightarrow> py_error + json list" where
  "py_iter (JArr xs) = Inr xs"
| "py_iter (JStr s) = Inr (map (\<lambda>c. JStr [c]) s)"
| "py_iter (JObj kvs) = Inr (map (\<lambda>kv. JStr (fst kv)) kvs)"
| "py_iter _ = Inl TypeError"

text \<open>\<^verbatim>\<open>d[key] = v\<close> on a dict: an existing key keeps its place, a new one goes last.\<close>

fun obj_set :: "string \<Rightarrow> json \<Rightarrow> (string \<times> json) list \<Rightarrow> (string \<times> json) list" where
  "obj_set k v [] = [(k, v)]"
| "obj_set k v (kv # kvs) = (if fst kv = k then (k, v) # kvs else kv # obj_set k v kvs)"

section \<open>Files, paths and the lock\<close>

text \<open>
  A path is the string \<^verbatim>\<open>pathlib\<close> prints for it, and two paths name the same file
  exactly when they are equal. Only regular files are modelled; their directories exist
  and can be written. A file's content is its bytes; what the manager writes is ASCII.
  \<open>lock_held\<close> is the state of the manager's \<^verbatim>\<open>asyncio.Lock\<close>.
\<close>

type_synonym path = string

record state =
  files :: "path \<Rightarrow> string option"
  lock_held :: bool

record ConfigManager =
  config_path :: path
  backup_dir :: path

text \<open>\<^verbatim>\<open>ConfigManager()\<close> with the default arguments, as \<^verbatim>\<open>main.py\<close> builds it.\<close>

definition default_manager :: ConfigManager where
  "default_manager =
     \<lparr>config_path = ''/usr/local/etc/xray/config.json'', backup_dir = ''/var/backups/xray''\<rparr>"

text \<open>
  The outcome of a coroutine that starts with \<^verbatim>\<open>async with self.lock\<close>, run on its
  own: when another task holds the lock it stays suspended and does nothing
  (\<open>Waiting\<close>); otherwise it takes the lock, runs its body and releases the lock on every
  exit, exceptions included.
\<close>

datatype 'a awaited = Waiting | Returned 'a

definition with_lock :: "(state \<Rightarrow> 'a \<times> state) \<Rightarrow> state \<Rightarrow> 'a awaited \<times> state" where
  "with_lock body s =
     (if lock_held s then (Waiting, s)
      else (case body (s\<lparr>lock_held := True\<rparr>) of
              (r, s') \<Rightarrow> (Returned r, s'\<lparr>lock_held := False\<rparr>)))"

definition write_file :: "path \<Rightarrow> string \<Rightarrow> state \<Rightarrow> state" where
  "write_file p content s = s\<lparr>files := (files s)(p \<mapsto> content)\<rparr>"

definition unlink :: "path \<Rightarrow> state \<Rightarrow> state" where
  "unlink p s = s\<lparr>files := (files s)(p := None)\<rparr>"

text \<open>\<^verbatim>\<open>src.replace(dst)\<close>: the rename that installs a file over another.\<close>

definition path_replace :: "path \<Rightarrow> path \<Rightarrow> state \<Rightarrow> (py_error + unit) \<times> state" where
  "path_replace src dst s =
     (case files s src of
        None \<Rightarrow> (Inl FileNotFoundError, s)
      | Some content \<Rightarrow>
          (Inr (), if src = dst then s else s\<lparr>files := (files s)(dst \<mapsto> content, src := None)\<rparr>))"

text \<open>\<^verbatim>\<open>shutil.copy2(src, dst)\<close>.\<close>

definition copy2 :: "path \<Rightarrow> path \<Rightarrow> state \<Rightarrow> (py_error + unit) \<times> state" where
  "copy2 src dst s =
     (case files s src of
        None \<Rightarrow> (Inl FileNotFoundError, s)
      | Some content \<Rightarrow>
          if src = dst then (Inl SameFileError, s)
          else (Inr (), s\<lparr>files := (files s)(dst \<mapsto> content)\<rparr>))"

text \<open>
  \<^verbatim>\<open>PurePath.name\<close>, the last component of a path: empty for the root and for the
  current directory, which \<^verbatim>\<open>pathlib\<close> prints as a dot. Then \<^verbatim>\<open>PurePath.suffix\<close>.
\<close>

definition path_name :: "path \<Rightarrow> string" where
  "path_name p = (if p = ''.'' then [] else rev (takeWhile (\<lambda>c. c \<noteq> CHR ''/'') (rev p)))"

definition path_suffix :: "path \<Rightarrow> string" where
  "path_suffix p =
     (let name = path_name p;
          after_dot = takeWhile (\<lambda>c. c \<noteq> CHR ''.'') (rev name)
      in if 0 < length after_dot \<and> length after_dot + 1 < length name
         then CHR ''.'' # rev after_dot else [])"

text \<open>\<^verbatim>\<open>PurePath.with_suffix\<close>, for a suffix that starts with a dot and has no slash.\<close>

definition with_suffix :: "path \<Rightarrow> string \<Rightarrow> py_error + path" where
  "with_suffix p suffix =
     (if path_name p = [] then Inl (ValueError [])
      else if path_suffix p = [] then Inr (p @ suffix)
      else Inr (take (length p - length (path_suffix p)) p @ suffix))"

text \<open>\<^verbatim>\<open>directory / name\<close> for a name without a slash.\<close>

definition path_join :: "path \<Rightarrow> string \<Rightarrow> path" where
  "path_join d name =
     (if d = ''.'' then name
      else if d = ''/'' then d @ name
      else d @ ''/'' @ name)"

section \<open>Response and request models of models.py\<close>

text \<open>
  The validation layer checks a model's fields when the model is built: a string field
  takes a string, an optional string also \<^verbatim>\<open>None\<close>, an integer field an integer (or
  what \<open>lax_int\<close> converts) within its bounds. A field left at its default is not
  checked.
\<close>

text \<open>A finite Python float: mantissa and binary exponent.\<close>

datatype py_float = PyFloat int int

record ProfileCreate =
  email :: string
  protocol :: "ProtocolType option"

record ProfileResponse =
  id_field :: string
  email :: "string option"
  protocol :: ProtocolType
  transport :: TransportType
  security :: SecurityType
  connection_link :: string
  created_at :: string
  port :: int
  server_address :: string
  flow :: "string option"
  sni :: "string option"
  public_key :: "string option"
  short_id :: "string option"
  fingerprint :: "string option"

record StatsResponse =
  active_connections :: int
  total_profiles :: int
  uptime_seconds :: int
  total_traffic_bytes :: int
  cpu_usage_percent :: "py_float option"
  memory_usage_percent :: "py_float option"

record SystemInfo =
  xray_version :: string
  os_name :: string
  os_version :: string
  kernel_version :: string
  python_version :: string
  dashboard_version :: string
  active_protocol :: ProtocolType
  bbr_enabled :: bool

record BackupResponse =
  backup_file :: string
  created_at :: string
  size_bytes :: int
  config_hash :: string

text \<open>
  \<^verbatim>\<open>ProfileCreate(email=v)\<close>: the length bounds are checked on the input as given, then
  \<^verbatim>\<open>validate_email\<close> strips and lower-cases it.
\<close>

definition validate_email :: "string \<Rightarrow> string" where
  "validate_email v = py_lower (py_strip v)"

definition ProfileCreate_new :: "string \<Rightarrow> py_error + ProfileCreate" where
  "ProfileCreate_new v =
     (if 3 \<le> length v \<and> length v \<le> 100
      then Inr \<lparr>ProfileCreate.email = validate_email v, protocol = Some VLESS_REALITY\<rparr>
      else Inl ValidationError)"

definition validate_str :: "json \<Rightarrow> py_error + string" where
  "validate_str v = (case v of JStr s \<Rightarrow> Inr s | _ \<Rightarrow> Inl ValidationError)"

definition validate_opt_str :: "json \<Rightarrow> py_error + string option" where
  "validate_opt_str v =
     (case v of JNull \<Rightarrow> Inr None | JStr s \<Rightarrow> Inr (Some s) | _ \<Rightarrow> Inl ValidationError)"

definition validate_port :: "world \<Rightarrow> json \<Rightarrow> py_error + int" where
  "validate_port w v =
     (case (case v of JInt i \<Rightarrow> Some i | _ \<Rightarrow> lax_int w v) of
        None \<Rightarrow> Inl ValidationError
      | Some i \<Rightarrow> if 1 \<le> i \<and> i \<le> 65535 then Inr i else Inl ValidationError)"

text \<open>\<^verbatim>\<open>StatsResponse()\<close> and \<^verbatim>\<open>StatsResponse(...)\<close> with the four counters given.\<close>

definition StatsResponse_default :: StatsResponse where
  "StatsResponse_default =
     \<lparr>active_connections = 0, total_profiles = 0, uptime_seconds = 0, total_traffic_bytes = 0,
      cpu_usage_percent = None, memory_usage_percent = None\<rparr>"

definition StatsResponse_new :: "int \<Rightarrow> int \<Rightarrow> int \<Rightarrow> int \<Rightarrow> py_error + StatsResponse" where
  "StatsResponse_new a t u b =
     (if 0 \<le> a \<and> 0 \<le> t \<and> 0 \<le> u \<and> 0 \<le> b
      then Inr \<lparr>active_connections = a, total_profiles = t, uptime_seconds = u,
                total_traffic_bytes = b, cpu_usage_percent = None, memory_usage_percent = None\<rparr>
      else Inl ValidationError)"

text \<open>\<^verbatim>\<open>TransportType(v)\<close> and \<^verbatim>\<open>SecurityType(v)\<close>: the member with that value.\<close>

definition TransportType_of :: "json \<Rightarrow> py_error + TransportType" where
  "TransportType_of v =
     (if v = JStr ''tcp'' then Inr TCP
      else if v = JStr ''ws'' then Inr WS
      else if v = JStr ''xhttp'' then Inr XHTTP
      else if v = JStr ''grpc'' then Inr GRPC
      else if v = JStr ''quic'' then Inr QUIC
      else Inl (ValueError []))"

definition SecurityType_of :: "json \<Rightarrow> py_error + SecurityType" where
  "SecurityType_of v =
     (if v = JStr ''none'' then Inr NONE
      else if v = JStr ''tls'' then Inr TLS
      else if v = JStr ''reality'' then Inr REALITY
      else if v = JStr ''xtls'' then Inr XTLS
      else Inl (ValueError []))"

section \<open>The configuration manager\<close>

subsection \<open>Reading, validating and writing the document\<close>

text \<open>\<^verbatim>\<open>ConfigManager._read_config\<close>.\<close>

definition read_config :: "ConfigManager \<Rightarrow> world \<Rightarrow> state \<Rightarrow> py_error + json" where
  "read_config cm w s =
     (case files s (config_path cm) of
        None \<Rightarrow> Inl FileNotFoundError
      | Some content \<Rightarrow> json_loads w content)"

definition test_config_path :: path where
  "test_config_path = ''/tmp/xray_test_config.json''"

text \<open>
  \<^verbatim>\<open>ConfigManager._validate_config\<close>: the candidate is written to the test file, the
  binary's test runs on it, and the \<^verbatim>\<open>finally\<close> block removes the file if it is there.
\<close>

definition validate_config :: "world \<Rightarrow> json \<Rightarrow> state \<Rightarrow> (py_error + bool) \<times> state" where
  "validate_config w config s =
     (let temp_path = test_config_path;
          s1 = write_file temp_path (json_dumps w config) s;
          r = (case xray_test w (json_dumps w config) of
                 Inl e \<Rightarrow> Inl e
               | Inr (returncode, stderr) \<Rightarrow>
                   if returncode \<noteq> 0
                   then Inl (ValueError (''Invalid Xray config: ''
                               @ (if stderr \<noteq> [] then stderr else ''Unknown error'')))
                   else Inr True)
      in (r, if files s1 temp_path \<noteq> None then unlink temp_path s1 else s1))"

text \<open>\<^verbatim>\<open>ConfigManager._write_config\<close>.\<close>

definition write_config ::
  "ConfigManager \<Rightarrow> world \<Rightarrow> json \<Rightarrow> state \<Rightarrow> (py_error + unit) \<times> state" where
  "write_config cm w config s =
     (case validate_config w config s of
        (Inl e, s1) \<Rightarrow> (Inl e, s1)
      | (Inr ok, s1) \<Rightarrow>
          (case with_suffix (config_path cm) ''.tmp'' of
             Inl e \<Rightarrow> (Inl e, s1)
           | Inr temp_path \<Rightarrow>
               path_replace temp_path (config_path cm)
                 (write_file temp_path (json_dumps_indent2 w config) s1)))"

subsection \<open>The first inbound and its client list\<close>

text \<open>\<^verbatim>\<open>config["inbounds"][0]\<close>.\<close>

definition first_inbound :: "json \<Rightarrow> py_error + json" where
  "first_inbound config = and_then (py_getitem config ''inbounds'') py_index0"

text \<open>\<^verbatim>\<open>inbound["settings"].get("clients", [])\<close>.\<close>

definition get_clients :: "json \<Rightarrow> py_error + json" where
  "get_clients inbound =
     and_then (py_getitem inbound ''settings'') (\<lambda>settings. py_get settings ''clients'' (JArr []))"

text \<open>
  The manager changes the client list in place, through the references it took from the
  document: \<open>set_clients config v\<close> is the document after
  \<^verbatim>\<open>config["inbounds"][0]["settings"]["clients"] = v\<close>, for a document where the reads
  on that path have succeeded.
\<close>

definition inbound_set_clients :: "json \<Rightarrow> json \<Rightarrow> json" where
  "inbound_set_clients inbound v =
     (case inbound of
        JObj i \<Rightarrow>
          (case map_of i ''settings'' of
             Some (JObj st) \<Rightarrow> JObj (obj_set ''settings'' (JObj (obj_set ''clients'' v st)) i)
           | _ \<Rightarrow> inbound)
      | _ \<Rightarrow> inbound)"

definition set_clients :: "json \<Rightarrow> json \<Rightarrow> json" where
  "set_clients config v =
     (case config of
        JObj c \<Rightarrow>
          (case map_of c ''inbounds'' of
             Some (JArr (inbound # others)) \<Rightarrow>
               JObj (obj_set ''inbounds'' (JArr (inbound_set_clients inbound v # others)) c)
           | _ \<Rightarrow> config)
      | _ \<Rightarrow> config)"

subsection \<open>Profiles\<close>

text \<open>\<^verbatim>\<open>ConfigManager._detect_transport\<close> and \<^verbatim>\<open>ConfigManager._detect_security\<close>.\<close>

definition detect_transport :: "json \<Rightarrow> py_error + TransportType" where
  "detect_transport inbound =
     and_then (py_get inbound ''streamSettings'' (JObj [])) (\<lambda>stream_settings.
     and_then (py_get stream_settings ''network'' (JStr ''tcp'')) TransportType_of)"

definition detect_security :: "json \<Rightarrow> py_error + SecurityType" where
  "detect_security inbound =
     and_then (py_get inbound ''streamSettings'' (JObj [])) (\<lambda>stream_settings.
     and_then (py_get stream_settings ''security'' (JStr ''none'')) SecurityType_of)"

text \<open>
  \<^verbatim>\<open>ConfigManager._build_profile_response\<close>. The label of the descriptor is
  \<^verbatim>\<open>email or "user"\<close>; the fields are checked when the response is built.
\<close>

definition build_profile_response ::
  "world \<Rightarrow> json \<Rightarrow> json \<Rightarrow> string \<Rightarrow> json \<Rightarrow> ProtocolType \<Rightarrow> TransportType \<Rightarrow> SecurityType
     \<Rightarrow> py_error + ProfileResponse" where
  "build_profile_response w client inbound server_ip port_v protocol_type transport_t security_t =
     and_then (py_getitem client ''id'') (\<lambda>client_id.
     and_then (py_get client ''email'' JNull) (\<lambda>email_v.
     and_then (generate_connection_link w client_id server_ip port_v protocol_type inbound
                 (if py_truthy email_v then email_v else JStr ''user'')) (\<lambda>link.
     and_then (py_get client ''flow'' JNull) (\<lambda>flow_v.
     and_then (and_then (py_get inbound ''streamSettings'' (JObj []))
                 (\<lambda>stream_settings. py_get stream_settings ''realitySettings'' (JObj [])))
       (\<lambda>reality_settings.
     and_then (if py_truthy reality_settings
               then and_then (py_get reality_settings ''serverNames'' (JArr [JNull])) py_index0
               else Inr JNull) (\<lambda>sni_v.
     and_then (if py_truthy reality_settings
               then and_then (py_get reality_settings ''shortIds'' (JArr [JNull])) py_index0
               else Inr JNull) (\<lambda>short_id_v.
     and_then (validate_str client_id) (\<lambda>id_s.
     and_then (validate_opt_str email_v) (\<lambda>email_s.
     and_then (validate_port w port_v) (\<lambda>port_i.
     and_then (validate_opt_str flow_v) (\<lambda>flow_s.
     and_then (validate_opt_str sni_v) (\<lambda>sni_s.
     and_then (validate_opt_str short_id_v) (\<lambda>short_id_s.
       Inr \<lparr>id_field = id_s, email = email_s, protocol = protocol_type,
            transport = transport_t, security = security_t, connection_link = link,
            created_at = datetime_utcnow w, port = port_i, server_address = server_ip,
            flow = flow_s, sni = sni_s, public_key = None, short_id = short_id_s,
            fingerprint = None\<rparr>)))))))))))))"

text \<open>The loop of \<^verbatim>\<open>get_all_profiles\<close> over the client entries.\<close>

fun build_profiles ::
  "world \<Rightarrow> json \<Rightarrow> string \<Rightarrow> json \<Rightarrow> ProtocolType \<Rightarrow> TransportType \<Rightarrow> SecurityType
     \<Rightarrow> json list \<Rightarrow> py_error + ProfileResponse list" where
  "build_profiles w inbound server_ip port_v protocol_type transport_t security_t [] = Inr []"
| "build_profiles w inbound server_ip port_v protocol_type transport_t security_t (client # rest) =
     and_then (build_profile_response w client inbound server_ip port_v protocol_type
                 transport_t security_t) (\<lambda>profile.
     and_then (build_profiles w inbound server_ip port_v protocol_type transport_t security_t rest)
       (\<lambda>profiles. Inr (profile # profiles)))"

text \<open>\<^verbatim>\<open>ConfigManager.get_all_profiles\<close>.\<close>

definition get_all_profiles ::
  "ConfigManager \<Rightarrow> world \<Rightarrow> state \<Rightarrow> (py_error + ProfileResponse list) awaited \<times> state" where
  "get_all_profiles cm w =
     with_lock (\<lambda>s.
       (and_then (read_config cm w s) (\<lambda>config.
        and_then (first_inbound config) (\<lambda>inbound.
        and_then (get_clients inbound) (\<lambda>clients.
        and_then (get_server_ip w) (\<lambda>server_ip.
        and_then (py_getitem inbound ''port'') (\<lambda>port_v.
        and_then (detect_protocol inbound) (\<lambda>protocol_type.
        and_then (detect_transport inbound) (\<lambda>transport_t.
        and_then (detect_security inbound) (\<lambda>security_t.
        and_then (py_iter clients) (\<lambda>entries.
          build_profiles w inbound server_ip port_v protocol_type transport_t security_t
            entries))))))))), s))"

text \<open>\<^verbatim>\<open>ConfigManager.get_profile\<close>: a linear scan of the listing.\<close>

definition get_profile ::
  "ConfigManager \<Rightarrow> world \<Rightarrow> string \<Rightarrow> state
     \<Rightarrow> (py_error + ProfileResponse option) awaited \<times> state" where
  "get_profile cm w profile_id s =
     (case get_all_profiles cm w s of
        (Waiting, s') \<Rightarrow> (Waiting, s')
      | (Returned (Inl e), s') \<Rightarrow> (Returned (Inl e), s')
      | (Returned (Inr profiles), s') \<Rightarrow>
          (Returned (Inr (find (\<lambda>profile. id_field profile = profile_id) profiles)), s'))"

text \<open>
  \<^verbatim>\<open>ConfigManager.create_profile\<close>. The new entry is appended in place, the document
  is written, and only then the response is built.
\<close>

definition new_client_entry :: "world \<Rightarrow> string \<Rightarrow> ProtocolType \<Rightarrow> json" where
  "new_client_entry w email_s protocol_type =
     JObj ([(''id'', JStr (generate_uuid w)), (''email'', JStr email_s)]
           @ (if protocol_type = VLESS_REALITY then [(''flow'', JStr ''xtls-rprx-vision'')] else []))"

text \<open>\<^verbatim>\<open>inbound["settings"]["clients"].append(c)\<close>: only a list has the method.\<close>

definition append_client :: "json \<Rightarrow> json \<Rightarrow> py_error + json" where
  "append_client inbound c =
     and_then (py_getitem inbound ''settings'') (\<lambda>settings.
     and_then (py_getitem settings ''clients'') (\<lambda>clients.
       case clients of JArr cs \<Rightarrow> Inr (JArr (cs @ [c])) | _ \<Rightarrow> Inl AttributeError))"

definition create_profile ::
  "ConfigManager \<Rightarrow> world \<Rightarrow> string \<Rightarrow> state \<Rightarrow> (py_error + ProfileResponse) awaited \<times> state" where
  "create_profile cm w email_s =
     with_lock (\<lambda>s.
       case and_then (read_config cm w s) (\<lambda>config.
            and_then (first_inbound config) (\<lambda>inbound.
            and_then (detect_protocol inbound) (\<lambda>protocol_type.
            and_then (append_client inbound (new_client_entry w email_s protocol_type))
              (\<lambda>clients. Inr (config, protocol_type, clients))))) of
         Inl e \<Rightarrow> (Inl e, s)
       | Inr (config, protocol_type, clients) \<Rightarrow>
           (case write_config cm w (set_clients config clients) s of
              (Inl e, s') \<Rightarrow> (Inl e, s')
            | (Inr u, s') \<Rightarrow>
                (and_then (first_inbound (set_clients config clients)) (\<lambda>inbound.
                 and_then (get_server_ip w) (\<lambda>server_ip.
                 and_then (py_getitem inbound ''port'') (\<lambda>port_v.
                 and_then (detect_transport inbound) (\<lambda>transport_t.
                 and_then (detect_security inbound) (\<lambda>security_t.
                   build_profile_response w (new_client_entry w email_s protocol_type) inbound
                     server_ip port_v protocol_type transport_t security_t))))), s')))"

text \<open>
  \<^verbatim>\<open>ConfigManager.delete_profile\<close>. An entry stays when its identifier differs from the
  one given; an entry without an identifier raises.
\<close>

fun filter_clients :: "string \<Rightarrow> json list \<Rightarrow> py_error + json list" where
  "filter_clients profile_id [] = Inr []"
| "filter_clients profile_id (c # cs) =
     and_then (py_getitem c ''id'') (\<lambda>i.
     and_then (filter_clients profile_id cs) (\<lambda>rest.
       Inr (if i \<noteq> JStr profile_id then c # rest else rest)))"

definition delete_profile ::
  "ConfigManager \<Rightarrow> world \<Rightarrow> string \<Rightarrow> state \<Rightarrow> (py_error + bool) awaited \<times> state" where
  "delete_profile cm w profile_id =
     with_lock (\<lambda>s.
       case and_then (read_config cm w s) (\<lambda>config.
            and_then (first_inbound config) (\<lambda>inbound.
            and_then (get_clients inbound) (\<lambda>clients.
            and_then (py_len clients) (\<lambda>original_count.
            and_then (and_then (py_iter clients) (filter_clients profile_id))
              (\<lambda>filtered_clients. Inr (config, original_count, filtered_clients)))))) of
         Inl e \<Rightarrow> (Inl e, s)
       | Inr (config, original_count, filtered_clients) \<Rightarrow>
           if length filtered_clients = original_count then (Inr False, s)
           else (case write_config cm w (set_clients config (JArr filtered_clients)) s of
                   (Inl e, s') \<Rightarrow> (Inl e, s')
                 | (Inr u, s') \<Rightarrow> (Inr True, s')))"

subsection \<open>Statistics and system information\<close>

text \<open>
  \<^verbatim>\<open>ConfigManager._get_xray_uptime\<close>: the query's output is not parsed, and a failure
  of the query is caught; both ways the result is zero.
\<close>

definition get_xray_uptime :: "world \<Rightarrow> int" where
  "get_xray_uptime w = (case systemctl_show w of Inl e \<Rightarrow> 0 | Inr out \<Rightarrow> 0)"

text \<open>The \<^verbatim>\<open>try\<close> block of \<^verbatim>\<open>get_statistics\<close>.\<close>

definition get_statistics_try :: "ConfigManager \<Rightarrow> world \<Rightarrow> state \<Rightarrow> py_error + StatsResponse" where
  "get_statistics_try cm w s =
     and_then (read_config cm w s) (\<lambda>config.
     and_then (first_inbound config) (\<lambda>inbound.
     and_then (get_clients inbound) (\<lambda>clients.
     and_then (py_len clients) (\<lambda>n.
       StatsResponse_new 0 (int n) (get_xray_uptime w) 0))))"

text \<open>
  \<^verbatim>\<open>ConfigManager.get_statistics\<close>: \<^verbatim>\<open>except Exception\<close> catches every error of the
  block and answers with the default snapshot. The method does not take the lock.
\<close>

definition get_statistics :: "ConfigManager \<Rightarrow> world \<Rightarrow> state \<Rightarrow> py_error + StatsResponse" where
  "get_statistics cm w s =
     (case get_statistics_try cm w s of
        Inl e \<Rightarrow> Inr StatsResponse_default
      | Inr stats \<Rightarrow> Inr stats)"

text \<open>
  The version expression of \<^verbatim>\<open>get_system_info\<close>, on the decoded output of the version
  query: \<^verbatim>\<open>out.split("\n")[0].split()[-1] if out else "unknown"\<close>.
\<close>

definition parse_xray_version :: "string \<Rightarrow> py_error + string" where
  "parse_xray_version out =
     (if out \<noteq> []
      then and_then (list_index0 (py_split_on (CHR 0x0A) out)) (\<lambda>line. list_last (py_split line))
      else Inr ''unknown'')"

text \<open>\<^verbatim>\<open>ConfigManager._check_bbr\<close>.\<close>

definition check_bbr :: "world \<Rightarrow> bool" where
  "check_bbr w = (case sysctl_congestion w of Inl e \<Rightarrow> False | Inr out \<Rightarrow> py_in ''bbr'' out)"

text \<open>\<^verbatim>\<open>ConfigManager.get_system_info\<close>. The method does not take the lock.\<close>

definition get_system_info :: "ConfigManager \<Rightarrow> world \<Rightarrow> state \<Rightarrow> py_error + SystemInfo" where
  "get_system_info cm w s =
     and_then (xray_version_query w) (\<lambda>out.
     and_then (parse_xray_version out) (\<lambda>version.
     and_then (list_index0 (py_split (sys_version w))) (\<lambda>python.
     and_then (read_config cm w s) (\<lambda>config.
     and_then (first_inbound config) (\<lambda>inbound.
     and_then (detect_protocol inbound) (\<lambda>protocol_type.
       Inr \<lparr>xray_version = version, os_name = platform_system w,
            os_version = platform_release w, kernel_version = platform_version w,
            python_version = python, dashboard_version = ''1.0.0'',
            active_protocol = protocol_type, bbr_enabled = check_bbr w\<rparr>))))))"

subsection \<open>Backup and restore\<close>

text \<open>\<^verbatim>\<open>ConfigManager.create_backup\<close>. The method does not take the lock.\<close>

definition backup_path_of :: "ConfigManager \<Rightarrow> world \<Rightarrow> path" where
  "backup_path_of cm w = path_join (backup_dir cm) (''config_backup_'' @ now_strftime w @ ''.json'')"

definition create_backup ::
  "ConfigManager \<Rightarrow> world \<Rightarrow> state \<Rightarrow> (py_error + BackupResponse) \<times> state" where
  "create_backup cm w s =
     (case copy2 (config_path cm) (backup_path_of cm w) s of
        (Inl e, s1) \<Rightarrow> (Inl e, s1)
      | (Inr u, s1) \<Rightarrow>
          (case files s1 (backup_path_of cm w) of
             None \<Rightarrow> (Inl FileNotFoundError, s1)
           | Some content \<Rightarrow>
               (Inr \<lparr>backup_file = backup_path_of cm w, created_at = datetime_utcnow w,
                     size_bytes = int (length content),
                     config_hash = sha256_hexdigest w content\<rparr>, s1)))"

text \<open>
  \<^verbatim>\<open>ConfigManager.restore_backup\<close>: the backup is read, parsed and validated, the
  current file is backed up, and the backup is copied over the configuration path. The
  method does not take the lock.
\<close>

definition restore_backup ::
  "ConfigManager \<Rightarrow> world \<Rightarrow> path \<Rightarrow> state \<Rightarrow> (py_error + bool) \<times> state" where
  "restore_backup cm w backup_path s =
     (case files s backup_path of
        None \<Rightarrow> (Inl FileNotFoundError, s)
      | Some content \<Rightarrow>
          (case json_loads w content of
             Inl e \<Rightarrow> (Inl e, s)
           | Inr config \<Rightarrow>
               (case validate_config w config s of
                  (Inl e, s1) \<Rightarrow> (Inl e, s1)
                | (Inr ok, s1) \<Rightarrow>
                    (case create_backup cm w s1 of
                       (Inl e, s2) \<Rightarrow> (Inl e, s2)
                     | (Inr b, s2) \<Rightarrow>
                         (case copy2 backup_path (config_path cm) s2 of
                            (Inl e, s3) \<Rightarrow> (Inl e, s3)
                          | (Inr u, s3) \<Rightarrow> (Inr True, s3))))))"

section \<open>The HTTP layer of main.py\<close>

text \<open>
  An \<^verbatim>\<open>HTTPException\<close>: the status code and the error it reports. The creation
  endpoint takes the label as a plain query parameter and hands it to the manager as
  it is; the outcome of the service restart is only logged.
\<close>

datatype http_exception = HTTPException nat py_error

definition api_create_profile ::
  "ConfigManager \<Rightarrow> world \<Rightarrow> string \<Rightarrow> state
     \<Rightarrow> (http_exception + ProfileResponse) awaited \<times> state" where
  "api_create_profile cm w email_s s =
     (case create_profile cm w email_s s of
        (Waiting, s') \<Rightarrow> (Waiting, s')
      | (Returned (Inl e), s') \<Rightarrow> (Returned (Inl (HTTPException 500 e)), s')
      | (Returned (Inr profile), s') \<Rightarrow>
          (let restart_success = restart_xray_service w in (Returned (Inr profile), s')))"

section \<open>Example inputs\<close>

text \<open>
  A Reality inbound with one client, the document around it, and the document after a
  profile with the label \<^verbatim>\<open>" Alice "\<close> and the identifier \<^verbatim>\<open>U\<close> has been added.
\<close>

definition example_inbound :: json where
  "example_inbound =
     JObj [(''port'', JInt 443),
           (''protocol'', JStr ''vless''),
           (''settings'',
              JObj [(''clients'',
                       JArr [JObj [(''id'', JStr ''A''), (''email'', JStr ''bob''),
                                   (''flow'', JStr ''xtls-rprx-vision'')]]),
                    (''decryption'', JStr ''none'')]),
           (''streamSettings'',
              JObj [(''network'', JStr ''tcp''),
                    (''security'', JStr ''reality''),
                    (''realitySettings'',
                       JObj [(''serverNames'', JArr [JStr ''www.example.com'']),
                             (''shortIds'', JArr [JStr ''ab12''])])])]"

definition example_config :: json where
  "example_config =
     JObj [(''log'', JObj []), (''inbounds'', JArr [example_inbound]), (''outbounds'', JArr [])]"

definition example_added :: json where
  "example_added =
     set_clients example_config
       (JArr [JObj [(''id'', JStr ''A''), (''email'', JStr ''bob''),
                    (''flow'', JStr ''xtls-rprx-vision'')],
              JObj [(''id'', JStr ''U''), (''email'', JStr '' Alice ''),
                    (''flow'', JStr ''xtls-rprx-vision'')]])"

definition example_emptied :: json where
  "example_emptied = set_clients example_config (JArr [])"

text \<open>
  A document in which the identifier \<^verbatim>\<open>A\<close> occurs twice, around another client, and the
  document with that other client alone.
\<close>

definition example_doubled :: json where
  "example_doubled =
     set_clients example_config
       (JArr [JObj [(''id'', JStr ''A''), (''email'', JStr ''bob'')],
              JObj [(''id'', JStr ''B''), (''email'', JStr ''carol'')],
              JObj [(''id'', JStr ''A''), (''email'', JStr ''dave'')]])"

definition example_single :: json where
  "example_single =
     set_clients example_config (JArr [JObj [(''id'', JStr ''B''), (''email'', JStr ''carol'')]])"

text \<open>
  A world for these documents: a codec that knows them by name, a binary that accepts
  every candidate and prints a version line, and fixed answers of the other
  collaborators.
\<close>

definition example_documents :: "(string \<times> json) list" where
  "example_documents =
     [(''original'', example_config), (''added'', example_added),
      (''emptied'', example_emptied), (''doubled'', example_doubled),
      (''single'', example_single)]"

definition example_loads :: "string \<Rightarrow> py_error + json" where
  "example_loads t =
     (case map_of example_documents t of None \<Rightarrow> Inl JSONDecodeError | Some v \<Rightarrow> Inr v)"

definition example_dumps :: "json \<Rightarrow> string" where
  "example_dumps v =
     (case find (\<lambda>named. snd named = v) example_documents of
        None \<Rightarrow> ''unknown''
      | Some named \<Rightarrow> fst named)"

definition example_world :: world where
  "example_world =
     \<lparr>json_loads = example_loads,
      json_dumps = example_dumps,
      json_dumps_indent2 = example_dumps,
      py_repr = (\<lambda>v. []),
      lax_int = (\<lambda>v. None),
      xray_test = (\<lambda>t. Inr (0, [])),
      xray_version_query = Inr ''Xray 1.8.4'',
      systemctl_show = Inr [],
      sysctl_congestion = Inr ''net.ipv4.tcp_congestion_control = bbr'',
      platform_system = ''Linux'',
      platform_release = ''6.1.0'',
      platform_version = ''#1 SMP'',
      sys_version = ''3.11.2 (main)'',
      get_server_ip = Inr ''1.2.3.4'',
      generate_uuid = ''U'',
      restart_xray_service = True,
      now_strftime = ''20260101_000000'',
      datetime_utcnow = ''2026-01-01T00:00:00'',
      sha256_hexdigest = (\<lambda>t. [])\<rparr>"

text \<open>The same world with a binary that rejects every candidate.\<close>

definition rejecting_world :: world where
  "rejecting_world = example_world\<lparr>xray_test := (\<lambda>t. Inr (23, ''failed to parse''))\<rparr>"

text \<open>A state with the original document at the default path, and the lock free.\<close>

definition example_state :: state where
  "example_state =
     \<lparr>files = [''/usr/local/etc/xray/config.json'' \<mapsto> ''original''], lock_held = False\<rparr>"

text \<open>A state with the document in which \<^verbatim>\<open>A\<close> occurs twice.\<close>

definition doubled_state :: state where
  "doubled_state =
     \<lparr>files = [''/usr/local/etc/xray/config.json'' \<mapsto> ''doubled''], lock_held = False\<rparr>"

text \<open>
  The state with the original document and an earlier backup that holds the document with
  two clients.
\<close>

definition earlier_backup :: path where
  "earlier_backup = ''/var/backups/xray/config_backup_20251231_235959.json''"

definition example_state_with_backup :: state where
  "example_state_with_backup =
     \<lparr>files = [''/usr/local/etc/xray/config.json'' \<mapsto> ''original'',
                earlier_backup \<mapsto> ''added''],
      lock_held = False\<rparr>"

section \<open>Properties\<close>

lemma and_then_Inr [simp]: "and_then (Inr x) f = f x"
  by (simp add: and_then_def)

lemma and_then_Inl [simp]: "and_then (Inl e) f = Inl e"
  by (simp add: and_then_def)

lemma and_then_eq_Inr:
  "and_then r f = Inr y \<longleftrightarrow> (\<exists>x. r = Inr x \<and> f x = Inr y)"
  by (cases r) simp_all

lemma py_lower_keywords:
  "py_lower ''vless'' = ''vless''" "py_lower ''vmess'' = ''vmess''"
  "py_lower ''trojan'' = ''trojan''" "py_lower ''VLESS'' = ''vless''"
  by code_simp+

subsection \<open>Protocol classification\<close>

text \<open>
  C1 (amended). The classification is a function of one inbound alone. For an inbound
  whose protocol field (the empty string when missing) is a string and whose stream
  settings (empty when missing) are a dict, the result is decided by the lower-cased
  protocol field: for \<^verbatim>\<open>vless\<close> it is \<open>VLESS_REALITY\<close> when the stream security is
  \<^verbatim>\<open>reality\<close>, else \<open>VLESS_XHTTP\<close> when the network is \<^verbatim>\<open>xhttp\<close>, else \<open>VLESS_WS\<close>;
  for \<^verbatim>\<open>vmess\<close> it is \<open>VMESS_WS\<close>; for \<^verbatim>\<open>trojan\<close> it is \<open>TROJAN_XTLS\<close>; for every other
  string it is \<open>VLESS_REALITY\<close>.
\<close>

theorem detect_protocol_classification:
  assumes "py_get inbound ''protocol'' (JStr []) = Inr (JStr p)"
      and "py_get inbound ''streamSettings'' (JObj []) = Inr (JObj ss)"
  shows "detect_protocol inbound =
           Inr (if py_lower p = ''vless'' then
                  (if map_of ss ''security'' = Some (JStr ''reality'') then VLESS_REALITY
                   else if map_of ss ''network'' = Some (JStr ''xhttp'') then VLESS_XHTTP
                   else VLESS_WS)
                else if py_lower p = ''vmess'' then VMESS_WS
                else if py_lower p = ''trojan'' then TROJAN_XTLS
                else VLESS_REALITY)"
  using assms by (simp add: detect_protocol_def split: option.splits)

theorem detect_protocol_classification_witness:
  "py_get (JObj [(''protocol'', JStr ''VLESS''),
                 (''streamSettings'',
                    JObj [(''network'', JStr ''xhttp''), (''security'', JStr ''tls'')])])
      ''protocol'' (JStr []) = Inr (JStr ''VLESS'')
   \<and> detect_protocol
        (JObj [(''protocol'', JStr ''VLESS''),
               (''streamSettings'',
                  JObj [(''network'', JStr ''xhttp''), (''security'', JStr ''tls'')])])
      = Inr VLESS_XHTTP"
proof -
  let ?ss = "[(''network'', JStr ''xhttp''), (''security'', JStr ''tls'')]"
  let ?inbound = "JObj [(''protocol'', JStr ''VLESS''), (''streamSettings'', JObj ?ss)]"
  have h1: "py_get ?inbound ''protocol'' (JStr []) = Inr (JStr ''VLESS'')"
    by simp
  have h2: "py_get ?inbound ''streamSettings'' (JObj []) = Inr (JObj ?ss)"
    by simp
  show ?thesis
    using detect_protocol_classification [OF h1 h2] h1 by (simp add: py_lower_keywords)
qed

text \<open>
  The claim as stated fails: the protocol value \<^verbatim>\<open>VMESS\<close> is none of \<^verbatim>\<open>vless\<close>,
  \<^verbatim>\<open>vmess\<close>, \<^verbatim>\<open>trojan\<close>, and it is classified \<open>VMESS_WS\<close>, not \<open>VLESS_REALITY\<close>.
\<close>

theorem detect_protocol_uppercase_counterexample:
  "''VMESS'' \<noteq> ''vless'' \<and> ''VMESS'' \<noteq> ''vmess'' \<and> ''VMESS'' \<noteq> ''trojan''
   \<and> detect_protocol (JObj [(''protocol'', JStr ''VMESS'')]) = Inr VMESS_WS
   \<and> VMESS_WS \<noteq> VLESS_REALITY"
  by code_simp

text \<open>An inbound that is no dict, or a protocol field that is no string, raises.\<close>

lemma detect_protocol_not_a_dict:
  "detect_protocol (JArr xs) = Inl AttributeError"
  "detect_protocol (JStr t) = Inl AttributeError"
  "detect_protocol (JObj [(''protocol'', JInt 5)]) = Inl AttributeError"
  by (simp_all add: detect_protocol_def)

subsection \<open>Connection descriptor\<close>

lemma str_int_443: "str_int 443 = ''443''"
  by code_simp

text \<open>
  C2. For the classification \<open>VLESS_REALITY\<close>, with \<open>sni\<close> and \<open>sid\<close> the first entries
  of the inbound's Reality \<^verbatim>\<open>serverNames\<close> and \<^verbatim>\<open>shortIds\<close> lists, the descriptor is
  exactly \<^verbatim>\<open>vless://\<close>, the identifier, an at sign, the address, a colon, the port in
  decimal, \<^verbatim>\<open>?type=tcp&security=reality&sni=\<close>, the SNI, \<^verbatim>\<open>&sid=\<close>, the short id,
  \<^verbatim>\<open>&flow=xtls-rprx-vision#\<close> and the label.
\<close>

theorem reality_connection_link:
  assumes "py_getitem inbound ''streamSettings'' = Inr stream_settings"
      and "py_getitem stream_settings ''realitySettings'' = Inr reality_settings"
      and "py_getitem reality_settings ''serverNames'' = Inr server_names"
      and "py_index0 server_names = Inr (JStr sni_s)"
      and "py_getitem reality_settings ''shortIds'' = Inr short_ids"
      and "py_index0 short_ids = Inr (JStr sid)"
  shows "generate_connection_link w (JStr identifier) address (JInt port_i) VLESS_REALITY inbound
           (JStr label)
         = Inr (''vless://'' @ identifier @ ''@'' @ address @ '':'' @ str_int port_i
                @ ''?type=tcp&security=reality&sni='' @ sni_s @ ''&sid='' @ sid
                @ ''&flow=xtls-rprx-vision#'' @ label)"
  using assms by (simp add: generate_connection_link_def)

text \<open>
  The instance of the claim: identifier \<^verbatim>\<open>U\<close>, address \<^verbatim>\<open>1.2.3.4\<close>, port 443, SNI
  \<^verbatim>\<open>www.example.com\<close>, short id \<^verbatim>\<open>ab12\<close>, label \<^verbatim>\<open>alice\<close>.
\<close>

theorem reality_connection_link_witness:
  "detect_protocol example_inbound = Inr VLESS_REALITY
   \<and> generate_connection_link example_world (JStr ''U'') ''1.2.3.4'' (JInt 443) VLESS_REALITY
        example_inbound (JStr ''alice'')
      = Inr ''vless://U@1.2.3.4:443?type=tcp&security=reality&sni=www.example.com&sid=ab12&flow=xtls-rprx-vision#alice''"
proof -
  have "generate_connection_link example_world (JStr ''U'') ''1.2.3.4'' (JInt 443) VLESS_REALITY
          example_inbound (JStr ''alice'')
        = Inr (''vless://'' @ ''U'' @ ''@'' @ ''1.2.3.4'' @ '':'' @ str_int 443
               @ ''?type=tcp&security=reality&sni='' @ ''www.example.com'' @ ''&sid='' @ ''ab12''
               @ ''&flow=xtls-rprx-vision#'' @ ''alice'')"
    by (rule reality_connection_link
          [where stream_settings = "JObj [(''network'', JStr ''tcp''),
                    (''security'', JStr ''reality''),
                    (''realitySettings'',
                       JObj [(''serverNames'', JArr [JStr ''www.example.com'']),
                             (''shortIds'', JArr [JStr ''ab12''])])]"
             and reality_settings = "JObj [(''serverNames'', JArr [JStr ''www.example.com'']),
                             (''shortIds'', JArr [JStr ''ab12''])]"
             and server_names = "JArr [JStr ''www.example.com'']"
             and short_ids = "JArr [JStr ''ab12'']"])
       (simp_all add: example_inbound_def)
  moreover have "detect_protocol example_inbound = Inr VLESS_REALITY"
    by (simp add: detect_protocol_def example_inbound_def py_lower_keywords)
  ultimately show ?thesis
    by (simp add: str_int_443)
qed

text \<open>
  An inbound without Reality settings has no such first entries: for the classification
  \<open>VLESS_REALITY\<close>, which is also the default of an unknown protocol, the lookup raises.
\<close>

lemma reality_link_without_settings:
  "detect_protocol (JObj [(''protocol'', JStr ''shadowsocks'')]) = Inr VLESS_REALITY"
  "generate_connection_link w client_id address port_v VLESS_REALITY
     (JObj [(''protocol'', JStr ''shadowsocks'')]) label = Inl KeyError"
  by (code_simp, simp add: generate_connection_link_def)

subsection \<open>Statistics\<close>

text \<open>
  C7. Whatever the state of the configuration file, statistics retrieval returns a
  snapshot and never an error; when the file is absent, when it cannot be parsed, and on
  every other failure of the block, it returns the default snapshot, whose counters are
  all zero.
\<close>

theorem get_statistics_never_raises:
  "(\<exists>stats. get_statistics cm w s = Inr stats)
   \<and> (files s (config_path cm) = None \<longrightarrow> get_statistics cm w s = Inr StatsResponse_default)
   \<and> (\<forall>content e. files s (config_path cm) = Some content \<and> json_loads w content = Inl e
         \<longrightarrow> get_statistics cm w s = Inr StatsResponse_default)
   \<and> (\<forall>e. get_statistics_try cm w s = Inl e \<longrightarrow> get_statistics cm w s = Inr StatsResponse_default)
   \<and> active_connections StatsResponse_default = 0
   \<and> total_profiles StatsResponse_default = 0
   \<and> uptime_seconds StatsResponse_default = 0
   \<and> total_traffic_bytes StatsResponse_default = 0"
proof -
  have returns: "\<exists>stats. get_statistics cm w s = Inr stats"
    by (cases "get_statistics_try cm w s") (simp_all add: get_statistics_def)
  have absent: "get_statistics cm w s = Inr StatsResponse_default"
    if "files s (config_path cm) = None"
    using that by (simp add: get_statistics_def get_statistics_try_def read_config_def)
  have unparseable: "get_statistics cm w s = Inr StatsResponse_default"
    if "files s (config_path cm) = Some content" and "json_loads w content = Inl e" for content e
    using that by (simp add: get_statistics_def get_statistics_try_def read_config_def)
  have failure: "get_statistics cm w s = Inr StatsResponse_default"
    if "get_statistics_try cm w s = Inl e" for e
    using that by (simp add: get_statistics_def)
  show ?thesis
    using returns absent unparseable failure by (simp add: StatsResponse_default_def)
qed

theorem get_statistics_never_raises_witness:
  "get_statistics default_manager example_world \<lparr>files = Map.empty, lock_held = False\<rparr>
     = Inr StatsResponse_default
   \<and> get_statistics default_manager example_world
        \<lparr>files = [''/usr/local/etc/xray/config.json'' \<mapsto> ''{''], lock_held = False\<rparr>
     = Inr StatsResponse_default"
proof -
  have loads: "json_loads example_world ''{'' = Inl JSONDecodeError"
    by (simp add: example_world_def example_loads_def example_documents_def)
  show ?thesis
    using get_statistics_never_raises
            [of default_manager example_world "\<lparr>files = Map.empty, lock_held = False\<rparr>"]
          get_statistics_never_raises
            [of default_manager example_world
                "\<lparr>files = [''/usr/local/etc/xray/config.json'' \<mapsto> ''{''], lock_held = False\<rparr>"]
          loads
    by (simp add: default_manager_def)
qed

text \<open>On a readable document the snapshot counts the clients of the first inbound.\<close>

lemma example_statistics:
  "get_statistics default_manager example_world example_state
     = Inr \<lparr>active_connections = 0, total_profiles = 1, uptime_seconds = 0,
            total_traffic_bytes = 0, cpu_usage_percent = None, memory_usage_percent = None\<rparr>"
  by code_simp

subsection \<open>Version string\<close>

lemma py_split_on_first:
  "list_index0 (py_split_on sep t) = Inr (takeWhile (\<lambda>c. c \<noteq> sep) t)"
  by (induction t) (auto simp: list_index0_def split: list.splits)

text \<open>A token of \<^verbatim>\<open>split()\<close> is not empty and has no whitespace in it.\<close>

lemma py_split_tokens:
  "t \<in> set (py_split u) \<Longrightarrow> t \<noteq> [] \<and> (\<forall>c \<in> set t. \<not> py_isspace c)"
proof (induction u arbitrary: t)
  case Nil
  then show ?case by simp
next
  case (Cons c cs)
  show ?case
  proof (cases "py_isspace c")
    case True
    with Cons show ?thesis by simp
  next
    case False
    note first = this
    show ?thesis
    proof (cases cs)
      case Nil
      with Cons.prems first show ?thesis by simp
    next
      case tail: (Cons d ds)
      show ?thesis
      proof (cases "py_isspace d")
        case True
        from Cons.prems first tail True have "t = [c] \<or> t \<in> set (py_split cs)"
          by (simp del: py_split.simps add: py_split.simps(2) [of c])
        with Cons.IH first show ?thesis by auto
      next
        case False
        show ?thesis
        proof (cases "py_split cs")
          case Nil
          with Cons.prems first tail False have "t = [c]"
            by (simp del: py_split.simps add: py_split.simps(2) [of c])
          with first show ?thesis by simp
        next
          case tokens: (Cons t' ts)
          with Cons.prems first tail False have "t = c # t' \<or> t \<in> set ts"
            by (simp del: py_split.simps add: py_split.simps(2) [of c])
          moreover have "t' \<in> set (py_split cs)" "\<And>x. x \<in> set ts \<Longrightarrow> x \<in> set (py_split cs)"
            using tokens by simp_all
          ultimately show ?thesis
            using Cons.IH first by auto
        qed
      qed
    qed
  qed
qed

text \<open>
  C9. With \<open>out\<close> the output of the version query: when there is no output the version
  string is \<^verbatim>\<open>unknown\<close>; when there is output and its first line has a token, the version
  string is the last whitespace-delimited token of the first line; and the version
  string of the system information is the one computed this way.
\<close>

theorem xray_version_last_token:
  "parse_xray_version [] = Inr ''unknown''
   \<and> (out \<noteq> [] \<and> py_split (takeWhile (\<lambda>c. c \<noteq> CHR 0x0A) out) \<noteq> []
        \<longrightarrow> parse_xray_version out = Inr (last (py_split (takeWhile (\<lambda>c. c \<noteq> CHR 0x0A) out))))
   \<and> (xray_version_query w = Inr out \<and> get_system_info cm w s = Inr info
        \<longrightarrow> parse_xray_version out = Inr (xray_version info))"
proof -
  have no_output: "parse_xray_version [] = Inr ''unknown''"
    by (simp add: parse_xray_version_def)
  have token: "parse_xray_version out = Inr (last (py_split (takeWhile (\<lambda>c. c \<noteq> CHR 0x0A) out)))"
    if "out \<noteq> []" and "py_split (takeWhile (\<lambda>c. c \<noteq> CHR 0x0A) out) \<noteq> []"
    using that by (simp add: parse_xray_version_def py_split_on_first list_last_def)
  have system_info: "parse_xray_version out = Inr (xray_version info)"
    if q: "xray_version_query w = Inr out" and g: "get_system_info cm w s = Inr info"
  proof -
    from g q obtain version where v: "parse_xray_version out = Inr version"
      and rest: "and_then (list_index0 (py_split (sys_version w))) (\<lambda>python.
                 and_then (read_config cm w s) (\<lambda>config.
                 and_then (first_inbound config) (\<lambda>inbound.
                 and_then (detect_protocol inbound) (\<lambda>protocol_type.
                   Inr \<lparr>xray_version = version, os_name = platform_system w,
                        os_version = platform_release w, kernel_version = platform_version w,
                        python_version = python, dashboard_version = ''1.0.0'',
                        active_protocol = protocol_type, bbr_enabled = check_bbr w\<rparr>))))
                 = Inr info"
      unfolding get_system_info_def by (cases "parse_xray_version out") simp_all
    from rest have "xray_version info = version"
      by (auto simp: and_then_eq_Inr)
    with v show ?thesis by simp
  qed
  from no_output token system_info show ?thesis
    by blast
qed

lemma example_system_info:
  "get_system_info default_manager example_world example_state
     = Inr \<lparr>xray_version = ''1.8.4'', os_name = ''Linux'', os_version = ''6.1.0'',
            kernel_version = ''#1 SMP'', python_version = ''3.11.2'',
            dashboard_version = ''1.0.0'', active_protocol = VLESS_REALITY,
            bbr_enabled = True\<rparr>"
  by code_simp

lemma example_version_tokens:
  "py_split (takeWhile (\<lambda>c. c \<noteq> CHR 0x0A) ''Xray 1.8.4'') = [''Xray'', ''1.8.4'']"
  by code_simp

theorem xray_version_last_token_witness:
  "xray_version_query example_world = Inr ''Xray 1.8.4''
   \<and> py_split (takeWhile (\<lambda>c. c \<noteq> CHR 0x0A) ''Xray 1.8.4'') = [''Xray'', ''1.8.4'']
   \<and> parse_xray_version ''Xray 1.8.4'' = Inr ''1.8.4''
   \<and> (\<exists>info. get_system_info default_manager example_world example_state = Inr info
         \<and> xray_version info = ''1.8.4'')"
  using xray_version_last_token
          [of "''Xray 1.8.4''" example_world default_manager example_state
              "\<lparr>xray_version = ''1.8.4'', os_name = ''Linux'', os_version = ''6.1.0'',
                kernel_version = ''#1 SMP'', python_version = ''3.11.2'',
                dashboard_version = ''1.0.0'', active_protocol = VLESS_REALITY,
                bbr_enabled = True\<rparr>"]
        example_system_info example_version_tokens
  by (simp add: example_world_def)

text \<open>
  Output whose first line has no token is neither case: the last element of an empty
  list is asked for.
\<close>

lemma blank_first_line_raises:
  "parse_xray_version [CHR 0x0A] = Inl IndexError"
  by code_simp

subsection \<open>State of the files and of the lock\<close>

lemma read_config_lock [simp]:
  "read_config cm w (s\<lparr>lock_held := b\<rparr>) = read_config cm w s"
  by (simp add: read_config_def)

lemma unlink_write_file [simp]: "unlink p (write_file p content s) = unlink p s"
  by (simp add: unlink_def write_file_def)

lemma release_free_lock: "\<not> lock_held s \<Longrightarrow> s\<lparr>lock_held := False\<rparr> = s"
  by (cases s) simp

lemma validate_config_state:
  "snd (validate_config w config s) = unlink test_config_path s"
  by (simp add: validate_config_def Let_def write_file_def unlink_def)

lemma validate_config_result:
  "fst (validate_config w config s) =
     (case xray_test w (json_dumps w config) of
        Inl e \<Rightarrow> Inl e
      | Inr (returncode, stderr) \<Rightarrow>
          if returncode \<noteq> 0
          then Inl (ValueError (''Invalid Xray config: ''
                      @ (if stderr \<noteq> [] then stderr else ''Unknown error'')))
          else Inr True)"
  by (simp add: validate_config_def Let_def)

lemma validate_config_accepted:
  "xray_test w (json_dumps w config) = Inr (0, stderr)
   \<Longrightarrow> validate_config w config s = (Inr True, unlink test_config_path s)"
  using validate_config_state [of w config s] validate_config_result [of w config s]
  by (cases "validate_config w config s") simp

lemma validate_config_rejected:
  "xray_test w (json_dumps w config) = Inr (returncode, stderr) \<Longrightarrow> returncode \<noteq> 0
   \<Longrightarrow> validate_config w config s =
         (Inl (ValueError (''Invalid Xray config: ''
                 @ (if stderr \<noteq> [] then stderr else ''Unknown error''))),
          unlink test_config_path s)"
  using validate_config_state [of w config s] validate_config_result [of w config s]
  by (cases "validate_config w config s") simp

lemma with_suffix_tmp_last:
  "with_suffix p ''.tmp'' = Inr t \<Longrightarrow> last t = CHR ''p''"
  by (auto simp: with_suffix_def split: if_splits)

lemma with_suffix_tmp_not_test:
  "with_suffix p ''.tmp'' = Inr t \<Longrightarrow> t \<noteq> test_config_path"
proof
  assume "with_suffix p ''.tmp'' = Inr t" and "t = test_config_path"
  then have "last test_config_path = CHR ''p''"
    using with_suffix_tmp_last by blast
  then show False
    by (simp add: test_config_path_def)
qed

text \<open>A path without a name has no sibling: the root and the current directory.\<close>

lemma with_suffix_no_name:
  "with_suffix ''/'' ''.tmp'' = Inl (ValueError [])"
  "with_suffix ''.'' ''.tmp'' = Inl (ValueError [])"
  by code_simp+

lemma default_temp_path:
  "with_suffix (config_path default_manager) ''.tmp'' = Inr ''/usr/local/etc/xray/config.tmp''"
  by code_simp

lemma example_reads:
  "read_config default_manager example_world example_state = Inr example_config"
  "first_inbound example_config = Inr example_inbound"
  "get_clients example_inbound
     = Inr (JArr [JObj [(''id'', JStr ''A''), (''email'', JStr ''bob''),
                        (''flow'', JStr ''xtls-rprx-vision'')]])"
  by (simp_all add: read_config_def default_manager_def example_state_def example_world_def
        example_loads_def example_documents_def first_inbound_def example_config_def get_clients_def
        example_inbound_def)

subsection \<open>Deleting a profile that is not there\<close>

lemma filter_clients_none_matching:
  "\<forall>c \<in> set cs. \<exists>i. py_getitem c ''id'' = Inr i \<and> i \<noteq> JStr profile_id
   \<Longrightarrow> filter_clients profile_id cs = Inr cs"
  by (induction cs) auto

text \<open>
  C4. For a readable document whose first inbound has the client list \<open>cs\<close>, every entry
  with an identifier, none of them the given one: deletion returns \<open>False\<close> and the
  state after it is the state before it, so nothing was written.
\<close>

theorem delete_profile_not_found:
  assumes free: "\<not> lock_held s"
      and doc: "read_config cm w s = Inr config"
      and inbound: "first_inbound config = Inr inbound"
      and clients: "get_clients inbound = Inr (JArr cs)"
      and absent: "\<forall>c \<in> set cs. \<exists>i. py_getitem c ''id'' = Inr i \<and> i \<noteq> JStr profile_id"
  shows "delete_profile cm w profile_id s = (Returned (Inr False), s)"
  using free doc inbound clients filter_clients_none_matching [OF absent]
  by (simp add: delete_profile_def with_lock_def release_free_lock)

theorem delete_profile_not_found_witness:
  "read_config default_manager example_world example_state = Inr example_config
   \<and> delete_profile default_manager example_world ''Z'' example_state
       = (Returned (Inr False), example_state)"
proof -
  have free: "\<not> lock_held example_state"
    by (simp add: example_state_def)
  have absent: "\<forall>c \<in> set [JObj [(''id'', JStr ''A''), (''email'', JStr ''bob''),
                                  (''flow'', JStr ''xtls-rprx-vision'')]].
                  \<exists>i. py_getitem c ''id'' = Inr i \<and> i \<noteq> JStr ''Z''"
    by simp
  show ?thesis
    using delete_profile_not_found [OF free example_reads absent] example_reads(1) by simp
qed

subsection \<open>A write that fails validation\<close>

text \<open>
  C5. When the binary's test of the candidate exits non-zero, the write fails with the
  \<^verbatim>\<open>ValueError\<close> that carries the diagnostic, and the state after it is the state
  before it without the test file: the persisted document is as it was, the temporary
  sibling of the configuration path is as it was (none is left behind), and the test
  file is gone. The test file is gone after every validation, whatever its outcome.
\<close>

theorem write_config_rejected:
  assumes test: "xray_test w (json_dumps w config) = Inr (returncode, stderr)"
      and failed: "returncode \<noteq> 0"
      and apart: "config_path cm \<noteq> test_config_path"
  shows "write_config cm w config s =
           (Inl (ValueError (''Invalid Xray config: ''
                   @ (if stderr \<noteq> [] then stderr else ''Unknown error''))),
            unlink test_config_path s)
         \<and> files (snd (write_config cm w config s)) (config_path cm) = files s (config_path cm)
         \<and> (\<forall>t. with_suffix (config_path cm) ''.tmp'' = Inr t
               \<longrightarrow> files (snd (write_config cm w config s)) t = files s t)
         \<and> files (snd (write_config cm w config s)) test_config_path = None
         \<and> (\<forall>w' config' s'. files (snd (validate_config w' config' s')) test_config_path = None)"
proof -
  have outcome: "write_config cm w config s =
           (Inl (ValueError (''Invalid Xray config: ''
                   @ (if stderr \<noteq> [] then stderr else ''Unknown error''))),
            unlink test_config_path s)"
    using validate_config_rejected [OF test failed, of s] by (simp add: write_config_def)
  have sibling: "files (unlink test_config_path s) t = files s t"
    if "with_suffix (config_path cm) ''.tmp'' = Inr t" for t
    using with_suffix_tmp_not_test [OF that] by (simp add: unlink_def)
  have cleaned: "files (snd (validate_config w' config' s')) test_config_path = None"
    for w' config' s'
    by (simp add: validate_config_state unlink_def)
  show ?thesis
    using apart sibling cleaned by (simp add: outcome unlink_def)
qed

theorem write_config_rejected_witness:
  "xray_test rejecting_world (json_dumps rejecting_world example_added)
     = Inr (23, ''failed to parse'')
   \<and> fst (write_config default_manager rejecting_world example_added example_state)
       = Inl (ValueError ''Invalid Xray config: failed to parse'')
   \<and> files (snd (write_config default_manager rejecting_world example_added example_state))
        ''/usr/local/etc/xray/config.json'' = Some ''original''
   \<and> files (snd (write_config default_manager rejecting_world example_added example_state))
        ''/usr/local/etc/xray/config.tmp'' = None
   \<and> files (snd (write_config default_manager rejecting_world example_added example_state))
        test_config_path = None"
proof -
  have test: "xray_test rejecting_world (json_dumps rejecting_world example_added)
                = Inr (23, ''failed to parse'')"
    by (simp add: rejecting_world_def)
  have failed: "(23::int) \<noteq> 0"
    by simp
  have apart: "config_path default_manager \<noteq> test_config_path"
    by (simp add: default_manager_def test_config_path_def)
  show ?thesis
    using write_config_rejected [OF test failed apart, of example_state] default_temp_path test
    by (simp add: default_manager_def example_state_def test_config_path_def unlink_def)
qed

subsection \<open>Restoring a backup\<close>





subsection \<open>Deleting a profile that is there\<close>

lemma filter_clients_filter:
  "\<forall>c \<in> set cs. \<exists>i. py_getitem c ''id'' = Inr i
   \<Longrightarrow> filter_clients profile_id cs
       = Inr (filter (\<lambda>c. py_getitem c ''id'' \<noteq> Inr (JStr profile_id)) cs)"
  by (induction cs) auto

lemma map_of_obj_set [simp]: "map_of (obj_set k v kvs) k = Some v"
  by (induction kvs) auto

lemma map_of_obj_set_other [simp]: "k' \<noteq> k \<Longrightarrow> map_of (obj_set k v kvs) k' = map_of kvs k'"
  by (induction kvs) auto

text \<open>After the assignment the client list read from the document is the one assigned.\<close>

lemma get_clients_set_clients:
  assumes "first_inbound config = Inr inbound" and "get_clients inbound = Inr old"
  shows "and_then (first_inbound (set_clients config v)) get_clients = Inr v"
proof -
  from assms(2) obtain settings where settings: "py_getitem inbound ''settings'' = Inr settings"
    and "py_get settings ''clients'' (JArr []) = Inr old"
    by (auto simp: get_clients_def and_then_eq_Inr)
  then obtain st where st: "settings = JObj st"
    by (cases settings) auto
  from settings obtain i where i: "inbound = JObj i" "map_of i ''settings'' = Some settings"
    by (cases inbound) (auto split: option.splits)
  from assms(1) obtain inbounds where "py_getitem config ''inbounds'' = Inr inbounds"
    and first: "py_index0 inbounds = Inr inbound"
    by (auto simp: first_inbound_def and_then_eq_Inr)
  then obtain c where c: "config = JObj c" "map_of c ''inbounds'' = Some inbounds"
    by (cases config) (auto split: option.splits)
  from first i obtain others where "inbounds = JArr (inbound # others)"
    by (cases inbounds) (auto split: list.splits)
  with i st c show ?thesis
    by (simp add: set_clients_def inbound_set_clients_def first_inbound_def get_clients_def)
qed

text \<open>A successful write leaves the candidate's text at the configuration path.\<close>

lemma write_config_accepted:
  assumes "xray_test w (json_dumps w config) = Inr (0, stderr)"
      and "with_suffix (config_path cm) ''.tmp'' = Inr temp_path"
  shows "\<exists>s'. write_config cm w config s = (Inr (), s')
           \<and> files s' (config_path cm) = Some (json_dumps_indent2 w config)
           \<and> lock_held s' = lock_held s"
  using assms validate_config_accepted [OF assms(1), of s]
  by (simp add: write_config_def path_replace_def write_file_def unlink_def)

text \<open>
  C10. For a readable document whose client entries all have an identifier, one or more
  of them the given one, and a candidate that the binary accepts and the codec reads
  back: deletion returns \<open>True\<close>, and the client list persisted afterwards is the old
  list without every entry of that identifier, the other entries in their order.
\<close>

theorem delete_profile_removes_all:
  assumes free: "\<not> lock_held s"
      and doc: "read_config cm w s = Inr config"
      and inbound: "first_inbound config = Inr inbound"
      and clients: "get_clients inbound = Inr (JArr cs)"
      and ids: "\<forall>c \<in> set cs. \<exists>i. py_getitem c ''id'' = Inr i"
      and present: "\<exists>c \<in> set cs. py_getitem c ''id'' = Inr (JStr profile_id)"
      and remaining: "remaining = filter (\<lambda>c. py_getitem c ''id'' \<noteq> Inr (JStr profile_id)) cs"
      and accepted: "xray_test w (json_dumps w (set_clients config (JArr remaining)))
                       = Inr (0, stderr)"
      and temp: "with_suffix (config_path cm) ''.tmp'' = Inr temp_path"
      and roundtrip: "json_loads w (json_dumps_indent2 w (set_clients config (JArr remaining)))
                        = Inr (set_clients config (JArr remaining))"
  shows "\<exists>s'. delete_profile cm w profile_id s = (Returned (Inr True), s')
           \<and> and_then (and_then (read_config cm w s') first_inbound) get_clients
               = Inr (JArr (filter (\<lambda>c. py_getitem c ''id'' \<noteq> Inr (JStr profile_id)) cs))
           \<and> \<not> lock_held s'"
proof -
  have filtered: "filter_clients profile_id cs = Inr remaining"
    using filter_clients_filter [OF ids] remaining by simp
  from present obtain c where "c \<in> set cs" and "\<not> py_getitem c ''id'' \<noteq> Inr (JStr profile_id)"
    by auto
  then have "length (filter (\<lambda>c. py_getitem c ''id'' \<noteq> Inr (JStr profile_id)) cs) < length cs"
    by (rule length_filter_less)
  with remaining have shorter: "length remaining \<noteq> length cs"
    by simp
  obtain s1 where written:
      "write_config cm w (set_clients config (JArr remaining)) (s\<lparr>lock_held := True\<rparr>)
         = (Inr (), s1)"
    and persisted: "files s1 (config_path cm)
                      = Some (json_dumps_indent2 w (set_clients config (JArr remaining)))"
    using write_config_accepted [OF accepted temp] by blast
  have deleted: "delete_profile cm w profile_id s = (Returned (Inr True), s1\<lparr>lock_held := False\<rparr>)"
    using free doc inbound clients filtered shorter written
    by (simp add: delete_profile_def with_lock_def)
  have "read_config cm w (s1\<lparr>lock_held := False\<rparr>) = Inr (set_clients config (JArr remaining))"
    using persisted roundtrip by (simp add: read_config_def)
  moreover have "and_then (first_inbound (set_clients config (JArr remaining))) get_clients
                   = Inr (JArr remaining)"
    by (rule get_clients_set_clients [OF inbound clients])
  ultimately have "and_then (and_then (read_config cm w (s1\<lparr>lock_held := False\<rparr>)) first_inbound)
               get_clients = Inr (JArr remaining)"
    by simp
  with deleted remaining show ?thesis
    by simp
qed

lemma doubled_reads:
  "read_config default_manager example_world doubled_state = Inr example_doubled"
  by (simp add: read_config_def default_manager_def doubled_state_def example_world_def
        example_loads_def example_documents_def)

lemma doubled_clients:
  "\<exists>inbound. first_inbound example_doubled = Inr inbound
      \<and> get_clients inbound
          = Inr (JArr [JObj [(''id'', JStr ''A''), (''email'', JStr ''bob'')],
                       JObj [(''id'', JStr ''B''), (''email'', JStr ''carol'')],
                       JObj [(''id'', JStr ''A''), (''email'', JStr ''dave'')]])"
  using get_clients_set_clients [OF example_reads(2) example_reads(3)]
  by (simp add: example_doubled_def and_then_eq_Inr)

lemma doubled_without_A:
  "set_clients example_doubled (JArr [JObj [(''id'', JStr ''B''), (''email'', JStr ''carol'')]])
     = example_single"
  by code_simp

lemma example_single_roundtrip:
  "json_loads example_world (json_dumps_indent2 example_world example_single) = Inr example_single"
  by code_simp

theorem delete_profile_removes_all_witness:
  "\<exists>s'. delete_profile default_manager example_world ''A'' doubled_state
           = (Returned (Inr True), s')
      \<and> and_then (and_then (read_config default_manager example_world s') first_inbound)
           get_clients
          = Inr (JArr [JObj [(''id'', JStr ''B''), (''email'', JStr ''carol'')]])"
proof -
  let ?cs = "[JObj [(''id'', JStr ''A''), (''email'', JStr ''bob'')],
              JObj [(''id'', JStr ''B''), (''email'', JStr ''carol'')],
              JObj [(''id'', JStr ''A''), (''email'', JStr ''dave'')]]"
  let ?remaining = "[JObj [(''id'', JStr ''B''), (''email'', JStr ''carol'')]]"
  obtain inbound where inbound: "first_inbound example_doubled = Inr inbound"
    and clients: "get_clients inbound = Inr (JArr ?cs)"
    using doubled_clients by blast
  have free: "\<not> lock_held doubled_state"
    by (simp add: doubled_state_def)
  have ids: "\<forall>c \<in> set ?cs. \<exists>i. py_getitem c ''id'' = Inr i"
    by simp
  have present: "\<exists>c \<in> set ?cs. py_getitem c ''id'' = Inr (JStr ''A'')"
    by simp
  have remaining: "?remaining = filter (\<lambda>c. py_getitem c ''id'' \<noteq> Inr (JStr ''A'')) ?cs"
    by simp
  have accepted: "xray_test example_world (json_dumps example_world
                    (set_clients example_doubled (JArr ?remaining))) = Inr (0, [])"
    by (simp add: example_world_def)
  have roundtrip: "json_loads example_world (json_dumps_indent2 example_world
                     (set_clients example_doubled (JArr ?remaining)))
                   = Inr (set_clients example_doubled (JArr ?remaining))"
    using example_single_roundtrip by (simp add: doubled_without_A)
  show ?thesis
    using delete_profile_removes_all
            [OF free doubled_reads inbound clients ids present remaining accepted
                default_temp_path roundtrip]
    by auto
qed

subsection \<open>The label of a new profile\<close>

lemma example_create_result:
  "fst (api_create_profile default_manager example_world '' Alice '' example_state)
     = Returned (Inr \<lparr>id_field = ''U'', email = Some '' Alice '', protocol = VLESS_REALITY,
           transport = TCP, security = REALITY,
           connection_link =
             ''vless://U@1.2.3.4:443?type=tcp&security=reality&sni=www.example.com&sid=ab12&flow=xtls-rprx-vision# Alice '',
           created_at = ''2026-01-01T00:00:00'', port = 443, server_address = ''1.2.3.4'',
           flow = Some ''xtls-rprx-vision'', sni = Some ''www.example.com'',
           public_key = None, short_id = Some ''ab12'', fingerprint = None\<rparr>)"
  by code_simp

lemma example_listing:
  "fst (get_all_profiles default_manager example_world
          (snd (api_create_profile default_manager example_world '' Alice '' example_state)))
     = Returned (Inr [\<lparr>id_field = ''A'', email = Some ''bob'', protocol = VLESS_REALITY,
           transport = TCP, security = REALITY,
           connection_link =
             ''vless://A@1.2.3.4:443?type=tcp&security=reality&sni=www.example.com&sid=ab12&flow=xtls-rprx-vision#bob'',
           created_at = ''2026-01-01T00:00:00'', port = 443, server_address = ''1.2.3.4'',
           flow = Some ''xtls-rprx-vision'', sni = Some ''www.example.com'',
           public_key = None, short_id = Some ''ab12'', fingerprint = None\<rparr>,
         \<lparr>id_field = ''U'', email = Some '' Alice '', protocol = VLESS_REALITY,
           transport = TCP, security = REALITY,
           connection_link =
             ''vless://U@1.2.3.4:443?type=tcp&security=reality&sni=www.example.com&sid=ab12&flow=xtls-rprx-vision# Alice '',
           created_at = ''2026-01-01T00:00:00'', port = 443, server_address = ''1.2.3.4'',
           flow = Some ''xtls-rprx-vision'', sni = Some ''www.example.com'',
           public_key = None, short_id = Some ''ab12'', fingerprint = None\<rparr>])"
  by code_simp

lemma example_sanitised:
  "ProfileCreate_new '' Alice ''
     = Inr \<lparr>ProfileCreate.email = ''alice'', protocol = Some VLESS_REALITY\<rparr>"
  "ProfileCreate_new ''ab'' = Inl ValidationError"
  by code_simp+

lemma example_short_label:
  "fst (api_create_profile default_manager example_world ''ab'' example_state)
     = Returned (Inr \<lparr>id_field = ''U'', email = Some ''ab'', protocol = VLESS_REALITY,
           transport = TCP, security = REALITY,
           connection_link =
             ''vless://U@1.2.3.4:443?type=tcp&security=reality&sni=www.example.com&sid=ab12&flow=xtls-rprx-vision#ab'',
           created_at = ''2026-01-01T00:00:00'', port = 443, server_address = ''1.2.3.4'',
           flow = Some ''xtls-rprx-vision'', sni = Some ''www.example.com'',
           public_key = None, short_id = Some ''ab12'', fingerprint = None\<rparr>)"
  by code_simp

text \<open>
  C6 (the code departs from the claim). The request model trims and lower-cases the
  label \<^verbatim>\<open>" Alice "\<close> to \<^verbatim>\<open>alice\<close>, but the creation endpoint does not build the
  request model: the profile it returns and the new entry of the listing afterwards
  carry the label as it was given. A label of two characters, which the request model
  refuses, is accepted.
\<close>

theorem create_profile_label_as_given:
  "ProfileCreate_new '' Alice ''
     = Inr \<lparr>ProfileCreate.email = ''alice'', protocol = Some VLESS_REALITY\<rparr>
   \<and> (\<exists>profile. fst (api_create_profile default_manager example_world '' Alice '' example_state)
                    = Returned (Inr profile)
          \<and> ProfileResponse.email profile = Some '' Alice '')
   \<and> (\<exists>profiles.
          fst (get_all_profiles default_manager example_world
                 (snd (api_create_profile default_manager example_world '' Alice ''
                         example_state)))
            = Returned (Inr profiles)
          \<and> map ProfileResponse.email profiles = [Some ''bob'', Some '' Alice ''])
   \<and> ProfileCreate_new ''ab'' = Inl ValidationError
   \<and> (\<exists>profile. fst (api_create_profile default_manager example_world ''ab'' example_state)
                    = Returned (Inr profile)
          \<and> ProfileResponse.email profile = Some ''ab'')"
  by (simp add: example_sanitised example_create_result example_listing example_short_label)

subsection \<open>Which operations take the lock\<close>

lemma copy2_lock:
  "copy2 src dst (s\<lparr>lock_held := b\<rparr>)
     = (fst (copy2 src dst s), (snd (copy2 src dst s))\<lparr>lock_held := b\<rparr>)"
  by (simp add: copy2_def split: option.splits)

lemma validate_config_lock:
  "validate_config w config (s\<lparr>lock_held := b\<rparr>)
     = (fst (validate_config w config s), (snd (validate_config w config s))\<lparr>lock_held := b\<rparr>)"
  by (simp add: validate_config_def Let_def write_file_def unlink_def)

lemma create_backup_lock:
  "create_backup cm w (s\<lparr>lock_held := b\<rparr>)
     = (fst (create_backup cm w s), (snd (create_backup cm w s))\<lparr>lock_held := b\<rparr>)"
  by (simp add: create_backup_def copy2_def split: option.splits)

lemma restore_backup_lock:
  "restore_backup cm w backup_path (s\<lparr>lock_held := b\<rparr>)
     = (fst (restore_backup cm w backup_path s),
        (snd (restore_backup cm w backup_path s))\<lparr>lock_held := b\<rparr>)"
proof (cases "files s backup_path")
  case None
  then show ?thesis by (simp add: restore_backup_def)
next
  case (Some content)
  show ?thesis
  proof (cases "json_loads w content")
    case (Inl e)
    with Some show ?thesis by (simp add: restore_backup_def)
  next
    case (Inr config)
    obtain r1 s1 where v: "validate_config w config s = (r1, s1)"
      by (cases "validate_config w config s")
    obtain r2 s2 where b: "create_backup cm w s1 = (r2, s2)"
      by (cases "create_backup cm w s1")
    obtain r3 s3 where c: "copy2 backup_path (config_path cm) s2 = (r3, s3)"
      by (cases "copy2 backup_path (config_path cm) s2")
    show ?thesis
      using Some Inr v b c
      by (simp add: restore_backup_def validate_config_lock create_backup_lock copy2_lock
            split: sum.splits)
  qed
qed

text \<open>
  C3 (the code departs from the claim). In a state where another task holds the lock,
  profile listing, creation and deletion wait and touch nothing. Statistics, system
  information, backup and restore do not look at the lock: they run as they would with
  the lock free, restore writes the same files, and the lock is still held by the other
  task when restore is done.
\<close>

theorem lock_taken_by_profile_operations_only:
  "get_all_profiles cm w (s\<lparr>lock_held := True\<rparr>) = (Waiting, s\<lparr>lock_held := True\<rparr>)
   \<and> create_profile cm w label (s\<lparr>lock_held := True\<rparr>) = (Waiting, s\<lparr>lock_held := True\<rparr>)
   \<and> delete_profile cm w profile_id (s\<lparr>lock_held := True\<rparr>) = (Waiting, s\<lparr>lock_held := True\<rparr>)
   \<and> get_statistics cm w (s\<lparr>lock_held := True\<rparr>) = get_statistics cm w s
   \<and> get_system_info cm w (s\<lparr>lock_held := True\<rparr>) = get_system_info cm w s
   \<and> fst (create_backup cm w (s\<lparr>lock_held := True\<rparr>)) = fst (create_backup cm w s)
   \<and> files (snd (create_backup cm w (s\<lparr>lock_held := True\<rparr>))) = files (snd (create_backup cm w s))
   \<and> fst (restore_backup cm w backup_path (s\<lparr>lock_held := True\<rparr>))
       = fst (restore_backup cm w backup_path s)
   \<and> files (snd (restore_backup cm w backup_path (s\<lparr>lock_held := True\<rparr>)))
       = files (snd (restore_backup cm w backup_path s))
   \<and> lock_held (snd (restore_backup cm w backup_path (s\<lparr>lock_held := True\<rparr>)))"
  by (simp add: get_all_profiles_def create_profile_def delete_profile_def with_lock_def
        get_statistics_def get_statistics_try_def get_system_info_def
        create_backup_lock restore_backup_lock)

text \<open>
  On the example: while the lock is held, restore replaces the configuration file.
\<close>

lemma restore_while_lock_held:
  "fst (restore_backup default_manager example_world earlier_backup
          (example_state_with_backup\<lparr>lock_held := True\<rparr>)) = Inr True"
  "files (snd (restore_backup default_manager example_world earlier_backup
                 (example_state_with_backup\<lparr>lock_held := True\<rparr>)))
     ''/usr/local/etc/xray/config.json'' = Some ''added''"
  "fst (delete_profile default_manager example_world ''A''
          (example_state_with_backup\<lparr>lock_held := True\<rparr>)) = Waiting"
  by code_simp+

end
